theory Spec2Isabelle
  imports Main "HOL-Library.Sublist"
begin

section \<open>Strings as Python sees them\<close>

text \<open>
  A Python \<open>str\<close> is a sequence of code points. The model reads a HOL \<open>string\<close> as the
  sequence of its code points, one \<open>char\<close> for each code point from U+0000 to U+00FF;
  \<open>str.lower\<close> and the regular expression class \<open>\w\<close> are given by Python's tables on that
  range. Strings with code points beyond U+00FF are outside the model.
\<close>

definition is_word_char :: "char \<Rightarrow> bool" where
  \<comment> \<open>the characters \<open>\w\<close> matches in a \<open>str\<close> pattern: alphanumerics and the underscore\<close>
  "is_word_char c = (let n = (of_char c :: nat) in
     (48 \<le> n \<and> n \<le> 57) \<or> (65 \<le> n \<and> n \<le> 90) \<or> n = 95 \<or> (97 \<le> n \<and> n \<le> 122) \<or>
     n = 170 \<or> (178 \<le> n \<and> n \<le> 179) \<or> n = 181 \<or> (185 \<le> n \<and> n \<le> 186) \<or>
     (188 \<le> n \<and> n \<le> 190) \<or> (192 \<le> n \<and> n \<le> 214) \<or> (216 \<le> n \<and> n \<le> 246) \<or>
     (248 \<le> n \<and> n \<le> 255))"

definition lower_char :: "char \<Rightarrow> char" where
  \<comment> \<open>the capital letters A to Z and U+00C0 to U+00DE (without the sign U+00D7) move up by 32\<close>
  "lower_char c = (let n = (of_char c :: nat) in
     if (65 \<le> n \<and> n \<le> 90) \<or> (192 \<le> n \<and> n \<le> 214) \<or> (216 \<le> n \<and> n \<le> 222)
     then char_of (n + 32) else c)"

definition lower :: "string \<Rightarrow> string" where
  \<comment> \<open>\<open>s.lower()\<close>\<close>
  "lower s = map lower_char s"

text \<open>
  \<open>re.findall(r'\b\w+\b', s)\<close>: the scan moves left to right; at a character that is not a
  word character nothing matches and the scan advances by one; at a word character (which
  the scan only reaches at the start of the text or right after a non-word character, so
  \<open>\b\<close> holds) the greedy \<open>\w+\<close> takes the whole run, \<open>\b\<close> holds at its end, and
  the scan resumes after the run.
\<close>

function findall_words :: "string \<Rightarrow> string list" where
  "findall_words [] = []"
| "findall_words (c # cs) =
     (if is_word_char c
      then (c # takeWhile is_word_char cs) # findall_words (dropWhile is_word_char cs)
      else findall_words cs)"
  by pat_completeness auto
termination
  by (relation "measure length") (auto simp: less_Suc_eq_le length_dropWhile_le)

fun join_str :: "string \<Rightarrow> string list \<Rightarrow> string" where
  \<comment> \<open>\<open>sep.join(parts)\<close>\<close>
  "join_str sep [] = []"
| "join_str sep [x] = x"
| "join_str sep (x # y # ys) = x @ sep @ join_str sep (y # ys)"

definition digit_char :: "nat \<Rightarrow> char" where
  "digit_char d = char_of (48 + d)"

fun str_nat :: "nat \<Rightarrow> string" where
  \<comment> \<open>\<open>str(i)\<close> of a non-negative integer: its decimal digits\<close>
  "str_nat n = (if n < 10 then [digit_char n] else str_nat (n div 10) @ [digit_char (n mod 10)])"

declare str_nat.simps [simp del]

definition nl :: char where
  "nl = CHR 0x0A"

section \<open>The completeness classifier\<close>

definition incomplete_indicators :: "string list" where
  "incomplete_indicators =
     [''no information'',
      ''not found'',
      ''cannot find'',
      ''not mentioned'',
      ''not provided'',
      ''not available'',
      ''insufficient information'',
      ''don't have enough'',
      ''context doesn't contain'',
      ''not in the documents'',
      ''need more context'',
      ''please provide'',
      ''i need more'',
      ''cannot answer'',
      ''unable to answer'']"

definition is_incomplete_answer :: "string \<Rightarrow> bool" where
  \<comment> \<open>\<open>indicator in answer_lower\<close> is the contiguous occurrence \<^const>\<open>sublist\<close>\<close>
  "is_incomplete_answer answer =
     (let answer_lower = lower answer
      in list_ex (\<lambda>indicator. sublist indicator answer_lower) incomplete_indicators)"

section \<open>The term extractor\<close>

definition stop_words :: "string set" where
  "stop_words = {''what'', ''how'', ''why'', ''when'', ''where'', ''who'', ''which'', ''is'',
     ''are'', ''do'', ''does'', ''can'', ''will'', ''would'', ''should''}"

definition key_words :: "string \<Rightarrow> string list" where
  "key_words question =
     (let words = findall_words (lower question)
      in filter (\<lambda>word. word \<notin> stop_words \<and> length word > 2) words)"

definition extract_key_terms :: "string \<Rightarrow> string" where
  "extract_key_terms question =
     (if key_words question \<noteq> [] then join_str '' '' (take 5 (key_words question))
      else question)"

definition sentinel :: string where
  \<comment> \<open>what \<open>answer_with_documents\<close> returns when nothing was retrieved\<close>
  "sentinel = ''No relevant documents found in uploaded content.''"

definition capital_question :: string where
  "capital_question = ''What is the capital of France and why is it important?''"

section \<open>Turns, documents and the external services\<close>

record document =
  page_content :: string
  metadata :: "(string \<times> string) list option"
  \<comment> \<open>\<open>None\<close>: the object has no attribute \<open>metadata\<close>; otherwise the dict, each value
     as the text an f-string prints for it\<close>

text \<open>
  Modelled from the spec: the turn type \<open>RAGState\<close> (\<open>src/state/rag_state.py\<close>), which
  the source imports and constructs by keyword: a record of the question, the retrieved
  chunks in relevance order and an optional answer, absent until an answer stage sets it.
\<close>

record RAGState =
  question :: string
  retrieved_docs :: "document list"
  answer :: "string option"

text \<open>
  A call of a service either returns or raises. \<open>Raises detail\<close> is an instance of
  \<open>Exception\<close>, the class the handlers of the source name, carried as its \<open>str(e)\<close>.
  Signals outside that class (\<open>KeyboardInterrupt\<close>, \<open>SystemExit\<close>) come from the
  interpreter, not from a service, and are not modelled.
\<close>

datatype 'a outcome = Returns 'a | Raises string

datatype response =
  Message string  \<comment> \<open>an object with the attribute \<open>content\<close>\<close>
| Opaque string   \<comment> \<open>any other object, carried as its \<open>str(response)\<close>\<close>

datatype call = RetrieverInvoke string | LlmInvoke string | WikiRun string

text \<open>
  The services are deterministic in their own state \<open>'w\<close> (a stub's counters, a remote
  model, the network). The environment pairs that state with the log of the calls made,
  oldest first.
\<close>

record 'w env =
  services :: 'w
  calls :: "call list"

record 'w RAGNodes =
  retriever :: "string \<Rightarrow> 'w \<Rightarrow> document list outcome \<times> 'w"
  llm :: "string \<Rightarrow> 'w \<Rightarrow> response outcome \<times> 'w"
  wiki_tool :: "string \<Rightarrow> 'w \<Rightarrow> string outcome \<times> 'w"

definition retriever_invoke ::
  "'w RAGNodes \<Rightarrow> string \<Rightarrow> 'w env \<Rightarrow> document list outcome \<times> 'w env" where
  "retriever_invoke self query e =
     (case retriever self query (services e) of
        (r, w) \<Rightarrow> (r, \<lparr>services = w, calls = calls e @ [RetrieverInvoke query]\<rparr>))"

definition llm_invoke ::
  "'w RAGNodes \<Rightarrow> string \<Rightarrow> 'w env \<Rightarrow> response outcome \<times> 'w env" where
  "llm_invoke self prompt e =
     (case llm self prompt (services e) of
        (r, w) \<Rightarrow> (r, \<lparr>services = w, calls = calls e @ [LlmInvoke prompt]\<rparr>))"

definition wiki_tool_run ::
  "'w RAGNodes \<Rightarrow> string \<Rightarrow> 'w env \<Rightarrow> string outcome \<times> 'w env" where
  "wiki_tool_run self query e =
     (case wiki_tool self query (services e) of
        (r, w) \<Rightarrow> (r, \<lparr>services = w, calls = calls e @ [WikiRun query]\<rparr>))"

definition response_text :: "response \<Rightarrow> string" where
  \<comment> \<open>\<open>response.content if hasattr(response, 'content') else str(response)\<close>\<close>
  "response_text response = (case response of Message content \<Rightarrow> content | Opaque s \<Rightarrow> s)"

definition wiki_calls :: "call list \<Rightarrow> string list" where
  \<comment> \<open>the queries sent to the knowledge lookup, in order\<close>
  "wiki_calls cs = concat (map (\<lambda>c. case c of WikiRun q \<Rightarrow> [q] | _ \<Rightarrow> []) cs)"

definition llm_calls :: "call list \<Rightarrow> string list" where
  \<comment> \<open>the prompts sent to the generation service, in order\<close>
  "llm_calls cs = concat (map (\<lambda>c. case c of LlmInvoke p \<Rightarrow> [p] | _ \<Rightarrow> []) cs)"

section \<open>The nodes\<close>

text \<open>
  The methods of \<open>RAGNodes\<close>, each taking the environment and returning it with its
  result. The \<open>print\<close> calls of the source write debugging lines to standard output
  and are left out.
\<close>

definition retrieve_docs ::
  "'w RAGNodes \<Rightarrow> RAGState \<Rightarrow> 'w env \<Rightarrow> RAGState outcome \<times> 'w env" where
  \<comment> \<open>no handler here: what the retriever raises reaches the caller\<close>
  "retrieve_docs self state e =
     (case retriever_invoke self (question state) e of
        (Raises detail, e') \<Rightarrow> (Raises detail, e')
      | (Returns docs, e') \<Rightarrow>
          (Returns \<lparr>question = question state, retrieved_docs = docs, answer = None\<rparr>, e'))"

definition dict_get :: "(string \<times> string) list \<Rightarrow> string \<Rightarrow> string \<Rightarrow> string" where
  \<comment> \<open>\<open>d.get(key, default)\<close>\<close>
  "dict_get d key dflt = (case map_of d key of Some v \<Rightarrow> v | None \<Rightarrow> dflt)"

definition doc_source :: "nat \<Rightarrow> document \<Rightarrow> string" where
  "doc_source i doc =
     (let meta = (case metadata doc of Some m \<Rightarrow> m | None \<Rightarrow> [])
      in dict_get meta ''source'' (dict_get meta ''title'' (''Document '' @ str_nat i)))"

definition context_part :: "nat \<Rightarrow> document \<Rightarrow> string" where
  "context_part i doc =
     ''[Document '' @ str_nat i @ '' - '' @ doc_source i doc @ '']'' @ [nl] @ page_content doc"

definition context_parts :: "document list \<Rightarrow> string list" where
  \<comment> \<open>the loop over \<open>enumerate(state.retrieved_docs, 1)\<close>\<close>
  "context_parts docs =
     map (\<lambda>(i, doc). context_part i doc) (zip [1 ..< Suc (length docs)] docs)"

definition document_prompt :: "string \<Rightarrow> string \<Rightarrow> string" where
  \<open>document_prompt full_context q = join_str [nl]
     [''Answer the user's question based on the provided context from uploaded documents.'',
      '''',
      ''CONTEXT FROM UPLOADED DOCUMENTS:'',
      full_context,
      '''',
      ''USER QUESTION: '' @ q,
      '''',
      ''INSTRUCTIONS:'',
      ''- Answer based on the provided context above'',
      ''- If the context contains the answer, provide a comprehensive response'',
      ''- If the context doesn't contain enough information, clearly state "The uploaded documents don't contain sufficient information about [topic]."'',
      ''- Be specific about what information is missing'',
      '''',
      ''ANSWER:'']\<close>

definition answer_with_documents ::
  "'w RAGNodes \<Rightarrow> RAGState \<Rightarrow> 'w env \<Rightarrow> string \<times> 'w env" where
  "answer_with_documents self state e =
     (if retrieved_docs state = [] then (sentinel, e)
      else
        let full_context = join_str [nl, nl] (context_parts (retrieved_docs state));
            prompt = document_prompt full_context (question state)
        in case llm_invoke self prompt e of
             (Returns response, e') \<Rightarrow> (response_text response, e')
           | (Raises detail, e') \<Rightarrow> (''Error processing documents: '' @ detail, e'))"

definition combined_prompt :: "string \<Rightarrow> string \<Rightarrow> string \<Rightarrow> string" where
  \<open>combined_prompt q doc_answer wiki_content = join_str [nl]
     [''You are answering a question where the user's uploaded documents had limited information.'',
      '''',
      ''ORIGINAL QUESTION: '' @ q,
      '''',
      ''ANSWER FROM UPLOADED DOCUMENTS:'',
      doc_answer,
      '''',
      ''ADDITIONAL WIKIPEDIA INFORMATION:'',
      wiki_content,
      '''',
      ''INSTRUCTIONS:'',
      ''- First acknowledge what was found in the uploaded documents'',
      ''- Then supplement with relevant Wikipedia information'',
      ''- Clearly distinguish between information from documents vs. Wikipedia'',
      ''- Provide a comprehensive answer combining both sources'',
      ''- Format as: "Based on your uploaded documents: [doc info]. Additionally, from general knowledge: [wiki info]."'',
      '''',
      ''FINAL ANSWER:'']\<close>

definition wikipedia_note :: "string \<Rightarrow> string" where
  \<comment> \<open>what the handler of \<open>answer_with_wikipedia\<close> appends to the document answer\<close>
  "wikipedia_note detail =
     [nl, nl] @ ''Note: Could not retrieve additional information from Wikipedia due to error: ''
       @ detail"

definition answer_with_wikipedia ::
  "'w RAGNodes \<Rightarrow> RAGState \<Rightarrow> string \<Rightarrow> 'w env \<Rightarrow> string \<times> 'w env" where
  "answer_with_wikipedia self state doc_answer e =
     (let wiki_query = extract_key_terms (question state)
      in case wiki_tool_run self wiki_query e of
           (Raises detail, e1) \<Rightarrow> (doc_answer @ wikipedia_note detail, e1)
         | (Returns wiki_content, e1) \<Rightarrow>
             (case llm_invoke self (combined_prompt (question state) doc_answer wiki_content) e1 of
                (Raises detail, e2) \<Rightarrow> (doc_answer @ wikipedia_note detail, e2)
              | (Returns response, e2) \<Rightarrow> (response_text response, e2)))"

definition generate_answer ::
  "'w RAGNodes \<Rightarrow> RAGState \<Rightarrow> 'w env \<Rightarrow> RAGState \<times> 'w env" where
  \<comment> \<open>the source only reads the fields of \<open>state\<close> and builds the turn it returns\<close>
  "generate_answer self state e =
     (case answer_with_documents self state e of
        (doc_answer, e1) \<Rightarrow>
          (case (if is_incomplete_answer doc_answer
                 then answer_with_wikipedia self state doc_answer e1
                 else (doc_answer, e1)) of
             (final_answer, e2) \<Rightarrow>
               (\<lparr>question = question state, retrieved_docs = retrieved_docs state,
                 answer = Some final_answer\<rparr>, e2)))"

section \<open>Test doubles\<close>

text \<open>
  Services that count their invocations and answer every call alike: the generation
  service with \<open>generated\<close>, the knowledge lookup with \<open>looked_up\<close>.
\<close>

definition stub_nodes :: "response outcome \<Rightarrow> string outcome \<Rightarrow> nat RAGNodes" where
  "stub_nodes generated looked_up =
     \<lparr>retriever = (\<lambda>query w. (Returns [], Suc w)),
      llm = (\<lambda>prompt w. (generated, Suc w)),
      wiki_tool = (\<lambda>query w. (looked_up, Suc w))\<rparr>"

definition one_chunk :: "document list" where
  "one_chunk =
     [\<lparr>page_content = ''Paris is the capital of France.'',
       metadata = Some [(''source'', ''atlas.pdf'')]\<rparr>]"

definition fresh_env :: "nat env" where
  "fresh_env = \<lparr>services = 0, calls = []\<rparr>"

section \<open>Lower-casing and tokens\<close>

lemma lower_char_idem: "lower_char (lower_char c) = lower_char c"
proof -
  have "of_char c < (256::nat)" by simp
  then show ?thesis
    unfolding lower_char_def Let_def
    by (auto simp: of_char_of take_bit_eq_mod)
qed

lemma lower_append: "lower (xs @ ys) = lower xs @ lower ys"
  by (simp add: lower_def)

lemma space_not_word: "\<not> is_word_char CHR '' ''"
  by (simp add: is_word_char_def)

lemma lower_space: "lower_char CHR '' '' = CHR '' ''"
  by (simp add: lower_char_def)

text \<open>Every token is a non-empty run of word characters taken from the text.\<close>

lemma findall_words_tokens:
  "t \<in> set (findall_words s) \<Longrightarrow> t \<noteq> [] \<and> (\<forall>c\<in>set t. is_word_char c) \<and> set t \<subseteq> set s"
proof (induction s rule: findall_words.induct)
  case 1
  then show ?case by simp
next
  case (2 c cs)
  show ?case
  proof (cases "is_word_char c")
    case True
    with 2 show ?thesis
      by (auto dest: set_takeWhileD set_dropWhileD)
  next
    case False
    with 2 show ?thesis by auto
  qed
qed

lemma findall_words_run:
  assumes "t \<noteq> []" "\<forall>c\<in>set t. is_word_char c"
  shows "findall_words t = [t]"
    and "findall_words (t @ CHR '' '' # r) = t # findall_words r"
proof -
  from assms obtain c u where t: "t = c # u" by (cases t) auto
  with assms have c: "is_word_char c" and u: "\<forall>x\<in>set u. is_word_char x" by auto
  from u have tw: "takeWhile is_word_char u = u" by (simp add: takeWhile_eq_all_conv)
  from u have dw: "dropWhile is_word_char u = []" by simp
  show "findall_words t = [t]" using c by (simp add: t tw dw)
  have "takeWhile is_word_char (u @ CHR '' '' # r) = u"
    using u by (simp add: takeWhile_append2 space_not_word)
  moreover have "dropWhile is_word_char (u @ CHR '' '' # r) = CHR '' '' # r"
    using u by (simp add: dropWhile_append2 space_not_word)
  ultimately show "findall_words (t @ CHR '' '' # r) = t # findall_words r"
    using c by (simp add: t space_not_word)
qed

text \<open>Tokens joined by single spaces are found again, one by one.\<close>

lemma findall_words_join:
  "\<forall>t\<in>set ts. t \<noteq> [] \<and> (\<forall>c\<in>set t. is_word_char c) \<Longrightarrow>
   findall_words (join_str '' '' ts) = ts"
proof (induction ts)
  case Nil
  then show ?case by simp
next
  case (Cons t ts)
  show ?case
  proof (cases ts)
    case Nil
    with Cons.prems show ?thesis by (simp add: findall_words_run(1))
  next
    case (Cons y ys)
    with Cons.prems Cons.IH show ?thesis
      by (simp add: findall_words_run(2))
  qed
qed

lemma lower_join:
  "\<forall>t\<in>set ts. lower t = t \<Longrightarrow> lower (join_str '' '' ts) = join_str '' '' ts"
proof (induction ts)
  case Nil
  then show ?case by (simp add: lower_def)
next
  case (Cons t ts)
  then show ?case
    by (cases ts) (simp_all add: lower_append, simp add: lower_def lower_space)
qed

lemma findall_words_lower_fixed:
  assumes "t \<in> set (findall_words (lower s))"
  shows "lower t = t"
proof -
  from findall_words_tokens [OF assms] have "set t \<subseteq> lower_char ` set s"
    by (simp add: lower_def)
  then have "\<forall>c\<in>set t. lower_char c = c"
    by (auto simp: lower_char_idem)
  then show ?thesis
    by (simp add: lower_def map_idI)
qed

lemma key_words_subset: "set (key_words q) \<subseteq> set (findall_words (lower q))"
  by (auto simp: key_words_def)

lemma key_words_join:
  assumes "ts = take n (key_words q)"
  shows "key_words (join_str '' '' ts) = ts"
proof -
  have sub: "set ts \<subseteq> set (key_words q)"
    using assms by (auto dest: in_set_takeD)
  then have tok: "\<forall>t\<in>set ts. t \<in> set (findall_words (lower q))"
    using key_words_subset by blast
  have "lower (join_str '' '' ts) = join_str '' '' ts"
    using tok by (intro lower_join) (auto intro: findall_words_lower_fixed)
  moreover have "findall_words (join_str '' '' ts) = ts"
    using tok by (intro findall_words_join) (auto dest: findall_words_tokens)
  moreover have "filter (\<lambda>word. word \<notin> stop_words \<and> length word > 2) ts = ts"
    using sub by (auto simp: key_words_def filter_id_conv)
  ultimately show ?thesis
    by (simp add: key_words_def)
qed

lemma join_str_nonempty: "ts \<noteq> [] \<Longrightarrow> hd ts \<noteq> [] \<Longrightarrow> join_str sep ts \<noteq> []"
  by (induction sep ts rule: join_str.induct) auto

section \<open>The classifier\<close>

lemma sentinel_complete: "\<not> is_incomplete_answer sentinel"
  by code_simp

text \<open>
  C3. The claim: the sentinel that \<open>answer_with_documents\<close> returns for an empty
  retrieval is classified as incomplete. On the code it is not: the lower-cased sentinel
  holds none of the fifteen phrases (it reads "documents found", not "not found"), so
  \<open>is_incomplete_answer\<close> returns false on it, and a turn with no retrieved chunks ends
  with the sentinel as its answer and no service invoked.
\<close>

theorem sentinel_not_flagged:
  "\<not> is_incomplete_answer sentinel
   \<and> generate_answer (stub_nodes (Returns (Message ''Paris.'')) (Returns ''France''))
       \<lparr>question = ''What is the capital?'', retrieved_docs = [], answer = None\<rparr> fresh_env
     = (\<lparr>question = ''What is the capital?'', retrieved_docs = [], answer = Some sentinel\<rparr>,
        fresh_env)"
  using sentinel_complete by (simp add: generate_answer_def answer_with_documents_def)

text \<open>
  C4. \<open>is_incomplete_answer\<close> returns true exactly when a phrase of the list occurs as a
  contiguous part of the lower-cased answer. In particular it returns true when the
  answer holds, anywhere, a variant of a phrase in any letter case (a text whose
  lower-casing is the phrase), and false when the lower-cased answer holds none of them.
\<close>

theorem is_incomplete_answer_iff:
  "(is_incomplete_answer a \<longleftrightarrow>
      (\<exists>phrase\<in>set incomplete_indicators. \<exists>before after. lower a = before @ phrase @ after))
   \<and> ((\<exists>phrase\<in>set incomplete_indicators. \<exists>before variant after.
          a = before @ variant @ after \<and> lower variant = phrase) \<longrightarrow> is_incomplete_answer a)
   \<and> ((\<forall>phrase\<in>set incomplete_indicators. \<not> sublist phrase (lower a)) \<longrightarrow>
          \<not> is_incomplete_answer a)"
proof -
  have iff: "is_incomplete_answer a \<longleftrightarrow>
      (\<exists>phrase\<in>set incomplete_indicators. \<exists>before after. lower a = before @ phrase @ after)"
    by (simp add: is_incomplete_answer_def list_ex_iff sublist_def)
  have variant: "is_incomplete_answer a"
    if "\<exists>phrase\<in>set incomplete_indicators. \<exists>before variant after.
          a = before @ variant @ after \<and> lower variant = phrase"
  proof -
    from that obtain phrase before variant after
      where p: "phrase \<in> set incomplete_indicators"
        and a: "a = before @ variant @ after" and v: "lower variant = phrase"
      by blast
    have "lower a = lower before @ phrase @ lower after"
      by (simp add: a lower_append v)
    with p iff show ?thesis by blast
  qed
  have none: "\<not> is_incomplete_answer a"
    if "\<forall>phrase\<in>set incomplete_indicators. \<not> sublist phrase (lower a)"
    using that by (simp add: is_incomplete_answer_def list_ex_iff)
  from iff variant none show ?thesis by blast
qed

theorem is_incomplete_answer_iff_witness:
  "is_incomplete_answer ''Sorry, the date was NOT Found.''
   \<and> \<not> is_incomplete_answer ''Paris is the capital of France.''"
proof -
  have p: "''not found'' \<in> set incomplete_indicators"
    by (simp add: incomplete_indicators_def)
  have v: "lower ''NOT Found'' = ''not found''" by code_simp
  have s: "''Sorry, the date was NOT Found.'' = ''Sorry, the date was '' @ ''NOT Found'' @ ''.''"
    by simp
  have yes: "is_incomplete_answer ''Sorry, the date was NOT Found.''"
    using is_incomplete_answer_iff [of "''Sorry, the date was NOT Found.''"] p v s by blast
  have n: "\<forall>phrase\<in>set incomplete_indicators.
             \<not> sublist phrase (lower ''Paris is the capital of France.'')"
    by code_simp
  have no: "\<not> is_incomplete_answer ''Paris is the capital of France.''"
    using is_incomplete_answer_iff [of "''Paris is the capital of France.''"] n by blast
  from yes no show ?thesis by blast
qed

section \<open>The term extractor\<close>

text \<open>
  C5. The claim: on "What is the capital of France and why is it important?" the
  extractor yields "capital france important". It does not.
\<close>

theorem capital_question_counterexample:
  "extract_key_terms capital_question \<noteq> ''capital france important''"
  by code_simp

text \<open>
  C5, as amended. The question has eleven tokens; "the" and "and" have three letters and
  are not in the stop-word set, so they survive with "capital", "france" and "important".
  The stop-words "what", "is", "why" and the two-letter tokens "of", "it" are removed, five
  tokens are kept, in their original order, and the result is
  "the capital france and important".
\<close>

theorem capital_question_key_terms:
  "findall_words (lower capital_question) =
     [''what'', ''is'', ''the'', ''capital'', ''of'', ''france'', ''and'', ''why'', ''is'', ''it'',
      ''important'']
   \<and> key_words capital_question = [''the'', ''capital'', ''france'', ''and'', ''important'']
   \<and> extract_key_terms capital_question = ''the capital france and important''"
  by code_simp

text \<open>
  C6. The claim: the extractor never returns an empty string. On the empty question no
  token survives and the question itself, the empty string, is returned.
\<close>

theorem empty_question_counterexample: "extract_key_terms '''' = ''''"
  by code_simp

text \<open>
  C6, as amended. If no token survives the stop-word and length filter, the extractor
  returns the question unmodified; and for every question that is not the empty string
  the result is not the empty string.
\<close>

theorem extract_key_terms_no_survivors:
  "(key_words q = [] \<longrightarrow> extract_key_terms q = q) \<and> (q \<noteq> [] \<longrightarrow> extract_key_terms q \<noteq> [])"
proof (cases "key_words q = []")
  case True
  then show ?thesis by (simp add: extract_key_terms_def)
next
  case False
  let ?ts = "take 5 (key_words q)"
  from False have ne: "?ts \<noteq> []" by simp
  then have "hd ?ts \<in> set (key_words q)"
    by (metis hd_in_set in_set_takeD)
  then have "hd ?ts \<in> set (findall_words (lower q))"
    using key_words_subset by blast
  then have "hd ?ts \<noteq> []"
    using findall_words_tokens by blast
  with ne have "join_str '' '' ?ts \<noteq> []"
    by (rule join_str_nonempty)
  with False show ?thesis by (simp add: extract_key_terms_def)
qed

theorem extract_key_terms_no_survivors_witness:
  "key_words ''Is it?'' = [] \<and> extract_key_terms ''Is it?'' = ''Is it?''
   \<and> extract_key_terms ''Is it?'' \<noteq> []"
proof -
  have h: "key_words ''Is it?'' = []" by code_simp
  have n: "''Is it?'' \<noteq> []" by simp
  from extract_key_terms_no_survivors [of "''Is it?''"] h n show ?thesis by blast
qed

text \<open>
  C10. The extractor is idempotent. Where tokens survive, the result is at most five
  lower-case tokens joined by single spaces; tokenising it gives the same tokens, each
  passes the filter again, and there are still at most five. Where none survives, the
  result is the question, and the second run repeats the first.
\<close>

theorem extract_key_terms_idempotent:
  "extract_key_terms (extract_key_terms q) = extract_key_terms q"
proof (cases "key_words q = []")
  case True
  then show ?thesis by (simp add: extract_key_terms_def)
next
  case False
  let ?ts = "take 5 (key_words q)"
  have kw: "key_words (join_str '' '' ?ts) = ?ts"
    by (rule key_words_join) simp
  from False have "?ts \<noteq> []" by simp
  with kw False show ?thesis
    by (simp add: extract_key_terms_def)
qed

section \<open>The call log\<close>

lemma wiki_calls_append: "wiki_calls (xs @ ys) = wiki_calls xs @ wiki_calls ys"
  by (simp add: wiki_calls_def)

lemma wiki_calls_simps:
  "wiki_calls [] = []" "wiki_calls [WikiRun q] = [q]" "wiki_calls [LlmInvoke p] = []"
  by (simp_all add: wiki_calls_def)

lemma wiki_calls_map_llm: "wiki_calls (map LlmInvoke ps) = []"
  by (induction ps) (simp_all add: wiki_calls_def)

lemma stub_nodes_simps:
  "llm (stub_nodes g k) p w = (g, Suc w)"
  "wiki_tool (stub_nodes g k) q w = (k, Suc w)"
  by (simp_all add: stub_nodes_def)

text \<open>What the document answerer adds to the log: at most one generation call.\<close>

lemma answer_with_documents_calls:
  "\<exists>ps. calls (snd (answer_with_documents self state e)) = calls e @ map LlmInvoke ps"
proof (cases "retrieved_docs state = []")
  case True
  then have "calls (snd (answer_with_documents self state e)) = calls e @ map LlmInvoke []"
    by (simp add: answer_with_documents_def)
  then show ?thesis by blast
next
  case False
  let ?p = "document_prompt (join_str [nl, nl] (context_parts (retrieved_docs state)))
    (question state)"
  from False
  have "calls (snd (answer_with_documents self state e)) = calls e @ map LlmInvoke [?p]"
    by (simp add: answer_with_documents_def llm_invoke_def Let_def
        split: prod.splits outcome.splits)
  then show ?thesis by blast
qed

text \<open>What the fallback adds to the log: the lookup first, then at most one generation call.\<close>

lemma answer_with_wikipedia_calls:
  "\<exists>ps. calls (snd (answer_with_wikipedia self state doc_answer e)) =
      calls e @ WikiRun (extract_key_terms (question state)) # map LlmInvoke ps"
proof -
  let ?q = "extract_key_terms (question state)"
  obtain r w where r: "wiki_tool self ?q (services e) = (r, w)"
    by (cases "wiki_tool self ?q (services e)")
  show ?thesis
  proof (cases r)
    case (Raises detail)
    with r have "calls (snd (answer_with_wikipedia self state doc_answer e)) =
        calls e @ WikiRun ?q # map LlmInvoke []"
      by (simp add: answer_with_wikipedia_def wiki_tool_run_def)
    then show ?thesis by blast
  next
    case (Returns content)
    let ?p = "combined_prompt (question state) doc_answer content"
    from Returns r have "calls (snd (answer_with_wikipedia self state doc_answer e)) =
        calls e @ WikiRun ?q # map LlmInvoke [?p]"
      by (simp add: answer_with_wikipedia_def wiki_tool_run_def llm_invoke_def
          split: prod.splits outcome.splits)
    then show ?thesis by blast
  qed
qed

lemma retrieve_docs_carries_question:
  "retrieve_docs self state e = (Returns state', e') \<Longrightarrow>
   question state' = question state \<and> answer state' = None"
  by (auto simp: retrieve_docs_def split: prod.splits outcome.splits)

section \<open>The document answerer\<close>

text \<open>
  C2. For a turn with no retrieved chunks, \<open>answer_with_documents\<close> returns the fixed
  sentinel and leaves the environment as it was: the generation service is not invoked,
  its state is untouched and the log has no new entry.
\<close>

theorem answer_with_documents_no_chunks:
  "retrieved_docs state = [] \<Longrightarrow>
   answer_with_documents self state e = (sentinel, e)
   \<and> llm_calls (calls (snd (answer_with_documents self state e))) = llm_calls (calls e)"
  by (simp add: answer_with_documents_def)

theorem answer_with_documents_no_chunks_witness:
  "answer_with_documents (stub_nodes (Returns (Message ''Paris.'')) (Returns ''France''))
     \<lparr>question = ''What is the capital?'', retrieved_docs = [], answer = None\<rparr> fresh_env
   = (sentinel, fresh_env)"
  using answer_with_documents_no_chunks
    [of "\<lparr>question = ''What is the capital?'', retrieved_docs = [], answer = None\<rparr>"
        "stub_nodes (Returns (Message ''Paris.'')) (Returns ''France'')" fresh_env]
  by simp

text \<open>
  C7. For a turn with retrieved chunks, if the generation service raises on the document
  prompt, \<open>answer_with_documents\<close> returns the text "Error processing documents: "
  followed by the detail of the failure. The handler returns; nothing is raised to the
  caller, and the one call made is in the log.
\<close>

theorem answer_with_documents_generation_raises:
  assumes "retrieved_docs state \<noteq> []"
    and "llm self (document_prompt (join_str [nl, nl] (context_parts (retrieved_docs state)))
           (question state)) (services e) = (Raises detail, w)"
  shows "answer_with_documents self state e =
     (''Error processing documents: '' @ detail,
      \<lparr>services = w,
       calls = calls e @ [LlmInvoke (document_prompt
         (join_str [nl, nl] (context_parts (retrieved_docs state))) (question state))]\<rparr>)"
  using assms by (simp add: answer_with_documents_def llm_invoke_def)

theorem answer_with_documents_generation_raises_witness:
  "fst (answer_with_documents (stub_nodes (Raises ''quota exceeded'') (Returns ''France''))
     \<lparr>question = ''What is the capital?'', retrieved_docs = one_chunk, answer = None\<rparr>
     fresh_env)
   = ''Error processing documents: quota exceeded''"
proof -
  let ?state =
    "\<lparr>question = ''What is the capital?'', retrieved_docs = one_chunk, answer = None\<rparr>"
  have d: "retrieved_docs ?state \<noteq> []" by (simp add: one_chunk_def)
  have l: "llm (stub_nodes (Raises ''quota exceeded'') (Returns ''France''))
      (document_prompt (join_str [nl, nl] (context_parts (retrieved_docs ?state)))
         (question ?state))
      (services fresh_env) = (Raises ''quota exceeded'', Suc 0)"
    by (simp add: stub_nodes_simps fresh_env_def)
  from answer_with_documents_generation_raises [OF d l] show ?thesis by simp
qed

section \<open>The fallback synthesizer\<close>

lemma wikipedia_note_longer: "doc_answer @ wikipedia_note detail \<noteq> detail"
proof
  assume "doc_answer @ wikipedia_note detail = detail"
  then have "length (doc_answer @ wikipedia_note detail) = length detail" by simp
  then show False by (simp add: wikipedia_note_def)
qed

text \<open>
  C8. The claim: when the lookup or the second generation call fails, the result is never
  an error-only string, whatever the document answer. For the empty document answer the
  result is the failure note and nothing else.
\<close>

theorem answer_with_wikipedia_empty_counterexample:
  "fst (answer_with_wikipedia (stub_nodes (Returns (Message ''Paris.'')) (Raises ''timeout''))
      \<lparr>question = ''What is the capital?'', retrieved_docs = one_chunk, answer = None\<rparr>
      '''' fresh_env) = wikipedia_note ''timeout''"
  by (simp add: answer_with_wikipedia_def wiki_tool_run_def stub_nodes_simps)

text \<open>
  C8, as amended. If the knowledge lookup raises, or it returns and the generation call on
  the combined prompt raises, \<open>answer_with_wikipedia\<close> returns the document answer
  followed by a note that ends with the detail of the failure. The result begins with the
  document answer, is not empty and is not the bare detail; when the document answer is
  not empty, the result is not the note alone.
\<close>

theorem answer_with_wikipedia_failure:
  assumes "wiki_tool self (extract_key_terms (question state)) (services e) = (Raises detail, w1)
     \<or> (\<exists>content w1 w2.
          wiki_tool self (extract_key_terms (question state)) (services e) = (Returns content, w1)
          \<and> llm self (combined_prompt (question state) doc_answer content) w1
              = (Raises detail, w2))"
  shows "fst (answer_with_wikipedia self state doc_answer e) = doc_answer @ wikipedia_note detail
     \<and> prefix doc_answer (fst (answer_with_wikipedia self state doc_answer e))
     \<and> fst (answer_with_wikipedia self state doc_answer e) \<noteq> []
     \<and> fst (answer_with_wikipedia self state doc_answer e) \<noteq> detail
     \<and> (doc_answer \<noteq> [] \<longrightarrow>
          fst (answer_with_wikipedia self state doc_answer e) \<noteq> wikipedia_note detail)"
proof -
  have res:
    "fst (answer_with_wikipedia self state doc_answer e) = doc_answer @ wikipedia_note detail"
    using assms
    by (auto simp: answer_with_wikipedia_def wiki_tool_run_def llm_invoke_def)
  have "doc_answer @ wikipedia_note detail \<noteq> []"
    by (simp add: wikipedia_note_def)
  with res wikipedia_note_longer [of doc_answer detail] show ?thesis by simp
qed

theorem answer_with_wikipedia_failure_witness:
  "fst (answer_with_wikipedia (stub_nodes (Returns (Message ''Paris.'')) (Raises ''timeout''))
      \<lparr>question = ''What is the capital?'', retrieved_docs = one_chunk, answer = None\<rparr>
      ''The capital is not mentioned.'' fresh_env)
     = ''The capital is not mentioned.'' @ wikipedia_note ''timeout''
   \<and> fst (answer_with_wikipedia (stub_nodes (Raises ''quota exceeded'') (Returns ''France''))
      \<lparr>question = ''What is the capital?'', retrieved_docs = one_chunk, answer = None\<rparr>
      ''The capital is not mentioned.'' fresh_env)
     = ''The capital is not mentioned.'' @ wikipedia_note ''quota exceeded''
   \<and> fst (answer_with_wikipedia (stub_nodes (Raises ''quota exceeded'') (Returns ''France''))
      \<lparr>question = ''What is the capital?'', retrieved_docs = one_chunk, answer = None\<rparr>
      ''The capital is not mentioned.'' fresh_env)
     \<noteq> wikipedia_note ''quota exceeded''"
proof -
  let ?state =
    "\<lparr>question = ''What is the capital?'', retrieved_docs = one_chunk, answer = None\<rparr>"
  let ?doc = "''The capital is not mentioned.''"
  let ?q = "extract_key_terms (question ?state)"
  let ?lookup_down = "stub_nodes (Returns (Message ''Paris.'')) (Raises ''timeout'')"
  let ?model_down = "stub_nodes (Raises ''quota exceeded'') (Returns ''France'')"
  have lookup: "wiki_tool ?lookup_down ?q (services fresh_env) = (Raises ''timeout'', Suc 0)
     \<or> (\<exists>content w1 w2.
          wiki_tool ?lookup_down ?q (services fresh_env) = (Returns content, w1)
          \<and> llm ?lookup_down (combined_prompt (question ?state) ?doc content) w1
              = (Raises ''timeout'', w2))"
    by (simp add: stub_nodes_simps fresh_env_def)
  have generation:
    "wiki_tool ?model_down ?q (services fresh_env) = (Raises ''quota exceeded'', Suc 0)
     \<or> (\<exists>content w1 w2.
          wiki_tool ?model_down ?q (services fresh_env) = (Returns content, w1)
          \<and> llm ?model_down (combined_prompt (question ?state) ?doc content) w1
              = (Raises ''quota exceeded'', w2))"
    by (simp add: stub_nodes_simps fresh_env_def)
  have ne: "?doc \<noteq> []" by simp
  from answer_with_wikipedia_failure [OF lookup] answer_with_wikipedia_failure [OF generation] ne
  show ?thesis by blast
qed

section \<open>The orchestrator\<close>

text \<open>
  C9. \<open>generate_answer\<close> returns a turn whose question and whose retrieved chunks are
  those of the input turn, the same elements in the same order, and whose answer is set:
  the result is the input turn with the answer field replaced. The source reads the
  fields of its argument and assigns to none, so the turn is passed by value and the
  caller's turn is what it was.
\<close>

theorem generate_answer_carries_turn:
  "question (fst (generate_answer self state e)) = question state
   \<and> retrieved_docs (fst (generate_answer self state e)) = retrieved_docs state
   \<and> (\<exists>final_answer. fst (generate_answer self state e) = state\<lparr>answer := Some final_answer\<rparr>)"
proof -
  obtain doc_answer e1 where d: "answer_with_documents self state e = (doc_answer, e1)"
    by (cases "answer_with_documents self state e")
  obtain a e2 where f: "(if is_incomplete_answer doc_answer
      then answer_with_wikipedia self state doc_answer e1 else (doc_answer, e1)) = (a, e2)"
    by (cases "if is_incomplete_answer doc_answer
      then answer_with_wikipedia self state doc_answer e1 else (doc_answer, e1)")
  have "fst (generate_answer self state e) =
      \<lparr>question = question state, retrieved_docs = retrieved_docs state, answer = Some a\<rparr>"
    using f by (simp add: generate_answer_def d)
  moreover have "\<lparr>question = question state, retrieved_docs = retrieved_docs state,
      answer = Some a\<rparr> = state\<lparr>answer := Some a\<rparr>"
    by (cases state) simp
  ultimately show ?thesis by auto
qed

text \<open>
  C1. Let the document answerer return \<open>doc_answer\<close> in environment \<open>e1\<close>, and let
  \<open>generate_answer\<close> end in \<open>e2\<close>. No lookup is issued before the document answer
  exists. After it, the lookup is invoked exactly when the classifier returns true on
  \<open>doc_answer\<close>, and then once, with the extracted terms, by the fallback synthesizer,
  whose result is the final answer. When the classifier returns false the final answer is
  \<open>doc_answer\<close> itself and the environment stays \<open>e1\<close>: no service is invoked.
\<close>

theorem generate_answer_fallback_iff:
  assumes "answer_with_documents self state e = (doc_answer, e1)"
    and "generate_answer self state e = (final, e2)"
  shows "wiki_calls (calls e1) = wiki_calls (calls e)
     \<and> (\<exists>rest. calls e2 = calls e1 @ rest
          \<and> wiki_calls rest = (if is_incomplete_answer doc_answer
                                then [extract_key_terms (question state)] else []))
     \<and> (wiki_calls (calls e2) \<noteq> wiki_calls (calls e) \<longleftrightarrow> is_incomplete_answer doc_answer)
     \<and> (is_incomplete_answer doc_answer \<longrightarrow>
          (\<exists>a. answer final = Some a
             \<and> answer_with_wikipedia self state doc_answer e1 = (a, e2)))
     \<and> (\<not> is_incomplete_answer doc_answer \<longrightarrow> answer final = Some doc_answer \<and> e2 = e1)"
proof -
  from answer_with_documents_calls [of self state e] assms(1)
  have doc: "wiki_calls (calls e1) = wiki_calls (calls e)"
    by (auto simp: wiki_calls_append wiki_calls_map_llm)
  show ?thesis
  proof (cases "is_incomplete_answer doc_answer")
    case True
    obtain a e' where w: "answer_with_wikipedia self state doc_answer e1 = (a, e')"
      by (cases "answer_with_wikipedia self state doc_answer e1")
    with assms True have fin: "answer final = Some a" "e2 = e'"
      by (auto simp: generate_answer_def)
    from answer_with_wikipedia_calls [of self state doc_answer e1] w fin(2)
    obtain ps where
      "calls e2 = calls e1 @ WikiRun (extract_key_terms (question state)) # map LlmInvoke ps"
      by auto
    moreover have "wiki_calls (WikiRun (extract_key_terms (question state)) # map LlmInvoke ps)
        = [extract_key_terms (question state)]"
      using wiki_calls_append [of "[WikiRun (extract_key_terms (question state))]"
          "map LlmInvoke ps"]
      by (simp add: wiki_calls_simps wiki_calls_map_llm)
    ultimately show ?thesis
      using True doc w fin by (auto simp: wiki_calls_append)
  next
    case False
    with assms have "answer final = Some doc_answer" "e2 = e1"
      by (auto simp: generate_answer_def)
    with False doc show ?thesis by (simp add: wiki_calls_simps)
  qed
qed

theorem generate_answer_fallback_iff_witness:
  "answer (fst (generate_answer
      (stub_nodes (Returns (Message ''Paris is the capital of France.'')) (Returns ''France''))
      \<lparr>question = ''What is the capital?'', retrieved_docs = one_chunk, answer = None\<rparr>
      fresh_env))
     = Some ''Paris is the capital of France.''
   \<and> wiki_calls (calls (snd (generate_answer
      (stub_nodes (Returns (Message ''Paris is the capital of France.'')) (Returns ''France''))
      \<lparr>question = ''What is the capital?'', retrieved_docs = one_chunk, answer = None\<rparr>
      fresh_env))) = []
   \<and> wiki_calls (calls (snd (generate_answer
      (stub_nodes (Returns (Message ''The capital is not mentioned.'')) (Returns ''France''))
      \<lparr>question = ''What is the capital?'', retrieved_docs = one_chunk, answer = None\<rparr>
      fresh_env)))
     = [''the capital'']"
proof -
  let ?state =
    "\<lparr>question = ''What is the capital?'', retrieved_docs = one_chunk, answer = None\<rparr>"
  let ?p = "document_prompt (join_str [nl, nl] (context_parts one_chunk)) ''What is the capital?''"
  let ?e1 = "\<lparr>services = Suc 0, calls = [LlmInvoke ?p]\<rparr>"
  let ?good = "stub_nodes (Returns (Message ''Paris is the capital of France.'')) (Returns ''France'')"
  let ?poor = "stub_nodes (Returns (Message ''The capital is not mentioned.'')) (Returns ''France'')"
  have ne: "one_chunk \<noteq> []" by (simp add: one_chunk_def)
  have good:
    "answer_with_documents ?good ?state fresh_env = (''Paris is the capital of France.'', ?e1)"
    using ne by (simp add: answer_with_documents_def llm_invoke_def stub_nodes_simps
        fresh_env_def response_text_def)
  have poor:
    "answer_with_documents ?poor ?state fresh_env = (''The capital is not mentioned.'', ?e1)"
    using ne by (simp add: answer_with_documents_def llm_invoke_def stub_nodes_simps
        fresh_env_def response_text_def)
  have complete: "\<not> is_incomplete_answer ''Paris is the capital of France.''" by code_simp
  have incomplete: "is_incomplete_answer ''The capital is not mentioned.''" by code_simp
  have q: "extract_key_terms ''What is the capital?'' = ''the capital''" by code_simp
  note g = generate_answer_fallback_iff [OF good surjective_pairing]
  note p = generate_answer_fallback_iff [OF poor surjective_pairing]
  have a: "answer (fst (generate_answer ?good ?state fresh_env))
      = Some ''Paris is the capital of France.''"
    using g complete by blast
  have "snd (generate_answer ?good ?state fresh_env) = ?e1"
    using g complete by blast
  then have b: "wiki_calls (calls (snd (generate_answer ?good ?state fresh_env))) = []"
    by (simp add: wiki_calls_simps)
  from p have "\<exists>rest. calls (snd (generate_answer ?poor ?state fresh_env)) = calls ?e1 @ rest
      \<and> wiki_calls rest = (if is_incomplete_answer ''The capital is not mentioned.''
                            then [extract_key_terms (question ?state)] else [])"
    by blast
  with incomplete obtain rest where
    "calls (snd (generate_answer ?poor ?state fresh_env)) = calls ?e1 @ rest"
    "wiki_calls rest = [extract_key_terms (question ?state)]"
    by auto
  then have c: "wiki_calls (calls (snd (generate_answer ?poor ?state fresh_env)))
      = [''the capital'']"
    by (simp add: wiki_calls_def q)
  from a b c show ?thesis by blast
qed

end
